theory Spec2Isabelle
  imports Main "HOL-Library.Multiset"
begin

section \<open>Data model of the blog session (src/app.js)\<close>

text \<open>
  The component \<^verbatim>\<open>App\<close> keeps its state in React state variables (lines 9-22).
  A draft is the object \<^verbatim>\<open>{ title, content }\<close> held in \<^verbatim>\<open>newPost\<close>; a post is what
  the snapshot callback builds at line 80, \<^verbatim>\<open>{ id: doc.id, ...doc.data() }\<close>: the
  document's id together with the stored fields. The stored fields are the ones
  \<^verbatim>\<open>createPost\<close> writes (lines 102-107); \<^verbatim>\<open>timestamp\<close> is an integer number of
  milliseconds when present and \<open>None\<close> when the field is missing or undefined,
  the case the comparator at line 82 provides for.
\<close>

record draft =
  title :: string
  content :: string

record post = draft +
  post_id :: string
  author :: string
  timestamp :: "int option"

text \<open>A document as the store emits it: \<^verbatim>\<open>doc.id\<close> and \<^verbatim>\<open>doc.data()\<close>.\<close>

record stored = draft +
  stored_author :: string
  stored_timestamp :: "int option"

record document =
  doc_id :: string
  doc_data :: stored

datatype main_view = Home | Blog
datatype blog_view = Public | Admin

datatype firestore = Firestore
datatype firebase_auth = FirebaseAuth

text \<open>Values of document fields and the object literals passed to the store.\<close>

datatype field_value = VString string | VNumber int

type_synonym fields = "(string \<times> field_value) list"

text \<open>
  The calls the component makes on the store: \<^verbatim>\<open>onSnapshot\<close> on a collection path
  (line 77), the function it returns (line 88), \<^verbatim>\<open>addDoc\<close> (line 102),
  \<^verbatim>\<open>updateDoc\<close> (line 122) and \<^verbatim>\<open>deleteDoc\<close> (line 137).
\<close>

datatype store_call =
    Subscribe string
  | Unsubscribe string
  | AddDoc string fields
  | UpdateDoc string fields
  | DeleteDoc string

text \<open>
  The session: the React state variables under their source names, the global
  \<^verbatim>\<open>__app_id\<close> (\<open>None\<close> when it is not defined), and what the component does to
  its surroundings: the lines written with \<^verbatim>\<open>console.error\<close>, the calls made on the
  store, the cleanup function React holds for the subscription effect
  (\<open>effect_cleanup\<close>, the path whose \<^verbatim>\<open>unsubscribe\<close> line 88 returned) and the
  listener the store holds open for the component (\<open>listener\<close>).
\<close>

record session =
  mainView :: main_view
  blogView :: blog_view
  posts :: "post list"
  isAuthReady :: bool
  userId :: "string option"
  newPost :: draft
  editingPost :: "post option"
  showDeleteModal :: bool
  postToDelete :: "post option"
  isMobileMenuOpen :: bool
  db :: "firestore option"
  auth :: "firebase_auth option"
  app_id_global :: "string option"
  console :: "string list"
  calls :: "store_call list"
  effect_cleanup :: "string option"
  listener :: "string option"

text \<open>The initial values of the \<^verbatim>\<open>useState\<close> calls, lines 9-22.\<close>

definition initial_session :: "string option \<Rightarrow> session" where
  "initial_session app =
     \<lparr> mainView = Home, blogView = Public, posts = [], isAuthReady = False,
       userId = None, newPost = \<lparr> title = [], content = [] \<rparr>, editingPost = None,
       showDeleteModal = False, postToDelete = None, isMobileMenuOpen = False,
       db = None, auth = None, app_id_global = app, console = [], calls = [],
       effect_cleanup = None, listener = None \<rparr>"

definition console_error :: "string \<Rightarrow> session \<Rightarrow> session" where
  "console_error msg s = s\<lparr> console := console s @ [msg] \<rparr>"

definition issue :: "store_call \<Rightarrow> session \<Rightarrow> session" where
  "issue c s = s\<lparr> calls := calls s @ [c] \<rparr>"

section \<open>The snapshot callback (lines 77-83)\<close>

text \<open>
  \<^verbatim>\<open>b.timestamp || 0\<close>: a missing timestamp and the falsy number 0 both give 0,
  any other number gives itself.
\<close>

definition timestamp_or_0 :: "post \<Rightarrow> int" where
  "timestamp_or_0 p =
     (case timestamp p of None \<Rightarrow> 0 | Some t \<Rightarrow> if t = 0 then 0 else t)"

text \<open>The comparator of line 82, \<^verbatim>\<open>(a, b) => (b.timestamp || 0) - (a.timestamp || 0)\<close>.\<close>

definition compare_posts :: "post \<Rightarrow> post \<Rightarrow> int" where
  "compare_posts a b = timestamp_or_0 b - timestamp_or_0 a"

text \<open>
  \<^verbatim>\<open>Array.prototype.sort\<close> with a comparator. ECMAScript (2019 and later) fixes the
  result for a consistent comparator: the elements in an order in which no
  element compares greater than a later one, elements that compare equal kept in
  their original order. Insertion from the right computes that list: an
  element goes in front of the first element it does not compare greater than.
\<close>

fun insert_by :: "('a \<Rightarrow> 'a \<Rightarrow> int) \<Rightarrow> 'a \<Rightarrow> 'a list \<Rightarrow> 'a list" where
  "insert_by cmp x [] = [x]"
| "insert_by cmp x (y # ys) =
     (if cmp x y \<le> 0 then x # y # ys else y # insert_by cmp x ys)"

definition array_sort :: "('a \<Rightarrow> 'a \<Rightarrow> int) \<Rightarrow> 'a list \<Rightarrow> 'a list" where
  "array_sort cmp xs = foldr (insert_by cmp) xs []"

text \<open>Line 80: \<^verbatim>\<open>{ id: doc.id, ...doc.data() }\<close>.\<close>

definition post_of_doc :: "document \<Rightarrow> post" where
  "post_of_doc d =
     \<lparr> title = title (doc_data d), content = content (doc_data d),
       post_id = doc_id d, author = stored_author (doc_data d),
       timestamp = stored_timestamp (doc_data d) \<rparr>"

text \<open>
  Lines 78-83: \<^verbatim>\<open>snapshot.forEach\<close> pushes the posts in the order of the
  snapshot, the array is sorted and replaces \<^verbatim>\<open>posts\<close>.
\<close>

definition fetchedPosts :: "document list \<Rightarrow> post list" where
  "fetchedPosts docs = array_sort compare_posts (map post_of_doc docs)"

definition onSnapshot_next :: "document list \<Rightarrow> session \<Rightarrow> session" where
  "onSnapshot_next docs s = s\<lparr> posts := fetchedPosts docs \<rparr>"

text \<open>Lines 84-86: the error callback only logs.\<close>

definition onSnapshot_error :: "string \<Rightarrow> session \<Rightarrow> session" where
  "onSnapshot_error e s = console_error (''Failed to fetch blog posts: '' @ e) s"

section \<open>Paths in the store\<close>

text \<open>
  Lines 29, 73, 100, 120, 135:
  \<^verbatim>\<open>typeof __app_id !== 'undefined' ? __app_id : 'default-app-id'\<close>.
\<close>

definition appId :: "session \<Rightarrow> string" where
  "appId s = (case app_id_global s of None \<Rightarrow> ''default-app-id'' | Some a \<Rightarrow> a)"

text \<open>\<^verbatim>\<open>${userId}\<close> in a template literal: \<^verbatim>\<open>null\<close> is written as the text null.\<close>

definition template_userId :: "string option \<Rightarrow> string" where
  "template_userId u = (case u of None \<Rightarrow> ''null'' | Some x \<Rightarrow> x)"

definition postsCollectionPath :: "session \<Rightarrow> string" where
  "postsCollectionPath s =
     ''artifacts/'' @ appId s @ ''/users/'' @ template_userId (userId s) @ ''/blogPosts''"

definition postsDocPath :: "session \<Rightarrow> string \<Rightarrow> string" where
  "postsDocPath s postId =
     ''artifacts/'' @ appId s @ ''/users/'' @ template_userId (userId s) @ ''/blogPosts/''
       @ postId"

section \<open>Initialisation and authentication (lines 25-68)\<close>

text \<open>
  What the surroundings give the first effect: \<open>ConfigInvalid\<close> when
  \<^verbatim>\<open>JSON.parse\<close>, \<^verbatim>\<open>initializeApp\<close>, \<^verbatim>\<open>getFirestore\<close> or \<^verbatim>\<open>getAuth\<close> throws (caught at
  line 65), \<open>ConfigUnavailable\<close> when the parsed object has no keys (line 31),
  \<open>ConfigOk\<close> otherwise: then \<^verbatim>\<open>db\<close> and \<^verbatim>\<open>auth\<close> are set (lines 40-41) and the
  handler of line 43 is registered.
\<close>

datatype firebase_config = ConfigInvalid string | ConfigUnavailable | ConfigOk

definition initialize :: "firebase_config \<Rightarrow> session \<Rightarrow> session" where
  "initialize cfg s =
     (case cfg of
        ConfigInvalid e \<Rightarrow> console_error (''Firebase initialization failed: '' @ e) s
      | ConfigUnavailable \<Rightarrow>
          console_error
            ''Firebase config is not available. Please check your environment.'' s
      | ConfigOk \<Rightarrow> s\<lparr> db := Some Firestore, auth := Some FirebaseAuth \<rparr>)"

text \<open>The outcome of \<^verbatim>\<open>await signInAnonymously(firebaseAuth)\<close>, line 48.\<close>

datatype anon_result = AnonSignedIn string | AnonFailed string

text \<open>
  The handler of lines 43-55, called with \<^verbatim>\<open>user.uid\<close> or with no user; the
  anonymous sign-in is attempted in the second case only. \<^verbatim>\<open>setIsAuthReady(true)\<close>
  runs on every path, also after a failed sign-in, which leaves \<^verbatim>\<open>userId\<close> as it
  was.
\<close>

definition onAuthStateChanged_handler ::
    "string option \<Rightarrow> anon_result \<Rightarrow> session \<Rightarrow> session" where
  "onAuthStateChanged_handler user anon s =
     (case user of
        Some uid \<Rightarrow> s\<lparr> userId := Some uid, isAuthReady := True \<rparr>
      | None \<Rightarrow>
          (case anon of
             AnonSignedIn uid \<Rightarrow> s\<lparr> userId := Some uid, isAuthReady := True \<rparr>
           | AnonFailed e \<Rightarrow>
               (console_error (''Anonymous sign-in failed: '' @ e) s)
                 \<lparr> isAuthReady := True \<rparr>))"

text \<open>Lines 59-61: a rejected \<^verbatim>\<open>signInWithCustomToken\<close> is logged.\<close>

definition customToken_failed :: "string \<Rightarrow> session \<Rightarrow> session" where
  "customToken_failed e s = console_error (''Custom token sign-in failed: '' @ e) s"

section \<open>The subscription effect (lines 71-90)\<close>

text \<open>\<^verbatim>\<open>userId\<close> in a condition: \<^verbatim>\<open>null\<close> and the empty string are falsy.\<close>

definition truthy :: "string option \<Rightarrow> bool" where
  "truthy u = (case u of None \<Rightarrow> False | Some x \<Rightarrow> x \<noteq> [])"

text \<open>
  The body of the effect: under the guard of line 72 it calls \<^verbatim>\<open>onSnapshot\<close> on the
  collection and returns the cleanup; otherwise it does nothing and returns no
  cleanup.
\<close>

definition subscription_effect :: "session \<Rightarrow> session" where
  "subscription_effect s =
     (if isAuthReady s \<and> truthy (userId s) \<and> db s \<noteq> None then
        (issue (Subscribe (postsCollectionPath s)) s)
          \<lparr> effect_cleanup := Some (postsCollectionPath s),
            listener := Some (postsCollectionPath s) \<rparr>
      else s\<lparr> effect_cleanup := None \<rparr>)"

text \<open>Line 88: the cleanup calls \<^verbatim>\<open>unsubscribe()\<close>, which ends the listener.\<close>

definition run_cleanup :: "session \<Rightarrow> session" where
  "run_cleanup s =
     (case effect_cleanup s of
        None \<Rightarrow> s
      | Some p \<Rightarrow> (issue (Unsubscribe p) s)\<lparr> effect_cleanup := None, listener := None \<rparr>)"

text \<open>
  The dependency array of line 90. After a handler has changed the state React
  renders again, and when a dependency differs it runs the cleanup of the
  previous run and then the effect.
\<close>

definition deps :: "session \<Rightarrow> bool \<times> string option \<times> firestore option" where
  "deps s = (isAuthReady s, userId s, db s)"

definition rerender :: "session \<Rightarrow> session \<Rightarrow> session" where
  "rerender old new =
     (if deps new = deps old then new else subscription_effect (run_cleanup new))"

section \<open>Create, update, delete (lines 93-148)\<close>

text \<open>
  How an awaited store call ends. \<^verbatim>\<open>collection(db, path)\<close> and \<^verbatim>\<open>doc(db, path)\<close>
  throw inside the \<^verbatim>\<open>try\<close> when \<^verbatim>\<open>db\<close> is still \<^verbatim>\<open>null\<close>, before any call reaches
  the store; \<open>no_firestore\<close> stands for the text of that error. A handler and
  the continuation after its \<^verbatim>\<open>await\<close> are one step of the session: the state
  variables a handler reads are those of the render that created it, and no
  other event is placed between the call and its answer.
\<close>

datatype reply = Resolved | Rejected string

definition no_firestore :: string where
  "no_firestore = ''FirebaseError''"

text \<open>
  The reference constructor of the Firestore SDK, \<^verbatim>\<open>collection(db, path)\<close>, as
  \<^verbatim>\<open>createPost\<close> calls it at line 102 inside the \<^verbatim>\<open>try\<close>. It throws for an empty
  path, for a \<^verbatim>\<open>db\<close> that is not a Firestore instance, for a path that contains
  \<^verbatim>\<open>//\<close>, and for a path that has an even number of segments once it is split
  at \<^verbatim>\<open>/\<close> and the empty segments are dropped; otherwise it gives the reference
  to that path. The strings stand for the messages of the SDK's errors. With an
  empty \<^verbatim>\<open>__app_id\<close> the path of line 101 contains \<^verbatim>\<open>//\<close>; with a \<^verbatim>\<open>/\<close> inside
  the app id the number of segments may be even.

  \<^verbatim>\<open>doc(db, path)\<close> at lines 122 and 137 is given the path of a post that a
  snapshot of this collection delivered; for it, and for the call of the effect
  at line 75, the missing handle is the only failure written out.
\<close>

fun double_slash :: "string \<Rightarrow> bool" where
  "double_slash (a # b # cs) = ((a = CHR ''/'' \<and> b = CHR ''/'') \<or> double_slash (b # cs))"
| "double_slash cs = False"

text \<open>\<^verbatim>\<open>path.split('/')\<close>.\<close>

fun split_path :: "string \<Rightarrow> string list" where
  "split_path [] = [[]]"
| "split_path (c # cs) =
     (if c = CHR ''/'' then [] # split_path cs
      else (case split_path cs of [] \<Rightarrow> [[c]] | seg # segs \<Rightarrow> (c # seg) # segs))"

definition path_segments :: "string \<Rightarrow> string list" where
  "path_segments path = filter (\<lambda>seg. seg \<noteq> []) (split_path path)"

definition collection :: "firestore option \<Rightarrow> string \<Rightarrow> string + string" where
  "collection d path =
     (if path = [] then Inl ''FirebaseError: empty path''
      else
        (case d of
           None \<Rightarrow> Inl no_firestore
         | Some _ \<Rightarrow>
             if double_slash path then Inl ''FirebaseError: Invalid segment''
             else if even (length (path_segments path)) then
               Inl ''FirebaseError: Invalid collection reference''
             else Inr path))"

text \<open>A path segment that is not empty and has no \<^verbatim>\<open>/\<close> in it.\<close>

definition plain_segment :: "string \<Rightarrow> bool" where
  "plain_segment seg = (seg \<noteq> [] \<and> CHR ''/'' \<notin> set seg)"

definition createPost :: "int \<Rightarrow> reply \<Rightarrow> session \<Rightarrow> session" where
  "createPost now r s =
     (if title (newPost s) = [] \<or> content (newPost s) = [] then
        console_error ''Title and content cannot be empty.'' s
      else
        (case collection (db s) (postsCollectionPath s) of
           Inl e \<Rightarrow> console_error (''Error adding document: '' @ e) s
         | Inr postsRef \<Rightarrow>
             (let s1 = issue (AddDoc postsRef
                          [(''title'', VString (title (newPost s))),
                           (''content'', VString (content (newPost s))),
                           (''author'', VString ''Murad Amin''),
                           (''timestamp'', VNumber now)]) s
              in case r of
                   Resolved \<Rightarrow> s1\<lparr> newPost := \<lparr> title = [], content = [] \<rparr> \<rparr>
                 | Rejected e \<Rightarrow> console_error (''Error adding document: '' @ e) s1)))"

text \<open>
  \<^verbatim>\<open>updatePost\<close> reads \<^verbatim>\<open>editingPost.title\<close> outside the \<^verbatim>\<open>try\<close>: with
  \<^verbatim>\<open>editingPost\<close> \<^verbatim>\<open>null\<close> that is a TypeError, and the promise is rejected.
\<close>

datatype js_error = TypeError

definition updatePost :: "string \<Rightarrow> reply \<Rightarrow> session \<Rightarrow> js_error + session" where
  "updatePost postId r s =
     (case editingPost s of
        None \<Rightarrow> Inl TypeError
      | Some d \<Rightarrow>
          if title d = [] \<or> content d = [] then
            Inr (console_error ''Title and content cannot be empty.'' s)
          else
            (case db s of
               None \<Rightarrow> Inr (console_error (''Error updating document: '' @ no_firestore) s)
             | Some _ \<Rightarrow>
                 (let s1 = issue (UpdateDoc (postsDocPath s postId)
                              [(''title'', VString (title d)),
                               (''content'', VString (content d))]) s
                  in case r of
                       Resolved \<Rightarrow> Inr (s1\<lparr> editingPost := None \<rparr>)
                     | Rejected e \<Rightarrow>
                         Inr (console_error (''Error updating document: '' @ e) s1))))"

definition deletePost :: "reply \<Rightarrow> session \<Rightarrow> session" where
  "deletePost r s =
     (case postToDelete s of
        None \<Rightarrow> s
      | Some p \<Rightarrow>
          (case db s of
             None \<Rightarrow> console_error (''Error deleting document: '' @ no_firestore) s
           | Some _ \<Rightarrow>
               (let s1 = issue (DeleteDoc (postsDocPath s (post_id p))) s
                in case r of
                     Resolved \<Rightarrow> s1\<lparr> showDeleteModal := False, postToDelete := None \<rparr>
                   | Rejected e \<Rightarrow>
                       console_error (''Error deleting document: '' @ e) s1)))"

definition showDeleteConfirmation :: "post \<Rightarrow> session \<Rightarrow> session" where
  "showDeleteConfirmation p s = s\<lparr> postToDelete := Some p, showDeleteModal := True \<rparr>"

text \<open>
  The store's side of \<^verbatim>\<open>updateDoc(ref, fields)\<close>: the fields named in the object
  are overwritten in the document, every other field of the document is kept.
\<close>

definition firestore_update ::
    "fields \<Rightarrow> (string \<rightharpoonup> field_value) \<Rightarrow> (string \<rightharpoonup> field_value)" where
  "firestore_update fs d = d ++ map_of fs"

section \<open>Events of a session\<close>

text \<open>
  What can happen to the mounted component: the callbacks the Firebase SDK
  invokes and the handlers the rendered elements carry (lines 383-576).
  \<^verbatim>\<open>Date.now()\<close> and the outcome of each awaited call come with the event.
\<close>

datatype event =
    AuthStateChanged "string option" anon_result
  | CustomTokenFailed string
  | SnapshotNext "document list"
  | SnapshotError string
  | SetMainView main_view
  | SetBlogView blog_view
  | ToggleMobileMenu
  | CloseMobileMenu
  | ChangeTitle string
  | ChangeContent string
  | ClickCreate int reply
  | ClickUpdate reply
  | ClickCancelEdit
  | ClickEdit post
  | ClickDelete post
  | ConfirmDelete reply
  | CancelDelete

text \<open>
  The admin panel is rendered when \<^verbatim>\<open>isAuthReady\<close> holds (line 544),
  \<^verbatim>\<open>mainView === 'blog'\<close> (line 551) and \<^verbatim>\<open>blogView === 'admin'\<close> (line 427).
\<close>

definition admin_visible :: "session \<Rightarrow> bool" where
  "admin_visible s = (isAuthReady s \<and> mainView s = Blog \<and> blogView s = Admin)"

text \<open>
  Which events can reach the component: the auth callbacks exist once line 43
  has registered the handler; the store delivers to an open listener only; a
  button can be clicked where it is rendered. The navigation of lines 519-541 and
  the modal of lines 571-576 are outside the \<^verbatim>\<open>isAuthReady\<close> switch.
\<close>

fun enabled :: "event \<Rightarrow> session \<Rightarrow> bool" where
  "enabled (AuthStateChanged user anon) s = (auth s \<noteq> None)"
| "enabled (CustomTokenFailed e) s = (auth s \<noteq> None)"
| "enabled (SnapshotNext docs) s = (listener s \<noteq> None)"
| "enabled (SnapshotError e) s = (listener s \<noteq> None)"
| "enabled (SetMainView v) s = True"
| "enabled (SetBlogView v) s = (isAuthReady s \<and> mainView s = Blog)"
| "enabled ToggleMobileMenu s = True"
| "enabled CloseMobileMenu s = True"
| "enabled (ChangeTitle v) s = admin_visible s"
| "enabled (ChangeContent v) s = admin_visible s"
| "enabled (ClickCreate now r) s = (admin_visible s \<and> editingPost s = None)"
| "enabled (ClickUpdate r) s = (admin_visible s \<and> editingPost s \<noteq> None)"
| "enabled ClickCancelEdit s = (admin_visible s \<and> editingPost s \<noteq> None)"
| "enabled (ClickEdit p) s = (admin_visible s \<and> List.member (posts s) p)"
| "enabled (ClickDelete p) s = (admin_visible s \<and> List.member (posts s) p)"
| "enabled (ConfirmDelete r) s = showDeleteModal s"
| "enabled CancelDelete s = showDeleteModal s"

text \<open>
  The handlers. After its error callback the store delivers nothing more to a
  listener, so \<open>SnapshotError\<close> ends the listener and then runs the callback of
  lines 84-86. The inputs of lines 434-447 write into \<^verbatim>\<open>editingPost\<close> when a post
  is being edited and into \<^verbatim>\<open>newPost\<close> otherwise. The update button calls
  \<^verbatim>\<open>updatePost(editingPost.id)\<close> (line 451); a rejected promise leaves the state
  as it is.
\<close>

fun handle :: "event \<Rightarrow> session \<Rightarrow> session" where
  "handle (AuthStateChanged user anon) s = onAuthStateChanged_handler user anon s"
| "handle (CustomTokenFailed e) s = customToken_failed e s"
| "handle (SnapshotNext docs) s = onSnapshot_next docs s"
| "handle (SnapshotError e) s = onSnapshot_error e (s\<lparr> listener := None \<rparr>)"
| "handle (SetMainView v) s = s\<lparr> mainView := v, isMobileMenuOpen := False \<rparr>"
| "handle (SetBlogView v) s = s\<lparr> blogView := v \<rparr>"
| "handle ToggleMobileMenu s = s\<lparr> isMobileMenuOpen := \<not> isMobileMenuOpen s \<rparr>"
| "handle CloseMobileMenu s = s\<lparr> isMobileMenuOpen := False \<rparr>"
| "handle (ChangeTitle v) s =
     (case editingPost s of
        Some p \<Rightarrow> s\<lparr> editingPost := Some (p\<lparr> title := v \<rparr>) \<rparr>
      | None \<Rightarrow> s\<lparr> newPost := (newPost s)\<lparr> title := v \<rparr> \<rparr>)"
| "handle (ChangeContent v) s =
     (case editingPost s of
        Some p \<Rightarrow> s\<lparr> editingPost := Some (p\<lparr> content := v \<rparr>) \<rparr>
      | None \<Rightarrow> s\<lparr> newPost := (newPost s)\<lparr> content := v \<rparr> \<rparr>)"
| "handle (ClickCreate now r) s = createPost now r s"
| "handle (ClickUpdate r) s =
     (case editingPost s of
        None \<Rightarrow> s
      | Some p \<Rightarrow> (case updatePost (post_id p) r s of Inl _ \<Rightarrow> s | Inr s' \<Rightarrow> s'))"
| "handle ClickCancelEdit s = s\<lparr> editingPost := None \<rparr>"
| "handle (ClickEdit p) s = s\<lparr> editingPost := Some p \<rparr>"
| "handle (ClickDelete p) s = showDeleteConfirmation p s"
| "handle (ConfirmDelete r) s = deletePost r s"
| "handle CancelDelete s = s\<lparr> showDeleteModal := False \<rparr>"

definition step :: "event \<Rightarrow> session \<Rightarrow> session" where
  "step ev s = (if enabled ev s then rerender s (handle ev s) else s)"

fun run :: "event list \<Rightarrow> session \<Rightarrow> session" where
  "run [] s = s"
| "run (ev # evs) s = run evs (step ev s)"

text \<open>
  The mounted component: the initial state, the first effect, and the
  subscription effect after it.
\<close>

definition mount :: "string option \<Rightarrow> firebase_config \<Rightarrow> session" where
  "mount app cfg =
     rerender (subscription_effect (initial_session app))
       (initialize cfg (subscription_effect (initial_session app)))"

text \<open>An event that brings a user id: the only way \<^verbatim>\<open>setUserId\<close> is reached.\<close>

fun brings_identity :: "event \<Rightarrow> bool" where
  "brings_identity (AuthStateChanged (Some uid) anon) = True"
| "brings_identity (AuthStateChanged None (AnonSignedIn uid)) = True"
| "brings_identity ev = False"

fun is_subscribe :: "store_call \<Rightarrow> bool" where
  "is_subscribe (Subscribe p) = True"
| "is_subscribe c = False"

fun is_emission :: "event \<Rightarrow> bool" where
  "is_emission (SnapshotNext docs) = True"
| "is_emission ev = False"

section \<open>Invariants of a session\<close>

text \<open>
  A session in which no user id has arrived: no user id, no cleanup held, no
  listener open, no \<^verbatim>\<open>onSnapshot\<close> among the calls made.
\<close>

definition unsubscribed :: "session \<Rightarrow> bool" where
  "unsubscribed s =
     (userId s = None \<and> effect_cleanup s = None \<and> listener s = None
      \<and> list_all (\<lambda>c. \<not> is_subscribe c) (calls s))"

text \<open>
  \<^verbatim>\<open>setIsAuthReady(true)\<close> is reached only in the handler registered at line 43,
  after \<^verbatim>\<open>setDb\<close> and \<^verbatim>\<open>setAuth\<close> at lines 40-41.
\<close>

definition initialized :: "session \<Rightarrow> bool" where
  "initialized s =
     ((isAuthReady s \<longrightarrow> auth s \<noteq> None) \<and> (auth s \<noteq> None \<longrightarrow> db s \<noteq> None))"

section \<open>Concrete documents and sessions\<close>

definition doc_a :: document where
  "doc_a = \<lparr> doc_id = ''a'', doc_data = \<lparr> title = ''First'', content = ''One'',
      stored_author = ''Murad Amin'', stored_timestamp = Some 100 \<rparr> \<rparr>"

definition doc_b :: document where
  "doc_b = \<lparr> doc_id = ''b'', doc_data = \<lparr> title = ''Second'', content = ''Two'',
      stored_author = ''Murad Amin'', stored_timestamp = Some 200 \<rparr> \<rparr>"

definition doc_c :: document where
  "doc_c = \<lparr> doc_id = ''c'', doc_data = \<lparr> title = ''Third'', content = ''Three'',
      stored_author = ''Murad Amin'', stored_timestamp = None \<rparr> \<rparr>"

definition doc_d :: document where
  "doc_d = \<lparr> doc_id = ''d'', doc_data = \<lparr> title = ''Fourth'', content = ''Four'',
      stored_author = ''Murad Amin'', stored_timestamp = Some 0 \<rparr> \<rparr>"

definition doc_e :: document where
  "doc_e = \<lparr> doc_id = ''e'', doc_data = \<lparr> title = ''Fifth'', content = ''Five'',
      stored_author = ''Murad Amin'', stored_timestamp = Some 200 \<rparr> \<rparr>"

definition post_a :: post where
  "post_a = \<lparr> title = ''First'', content = ''One'', post_id = ''a'',
      author = ''Murad Amin'', timestamp = Some 100 \<rparr>"

text \<open>
  A signed-in session showing the admin panel, with the post \<open>a\<close> in its
  snapshot (\<open>ready_session_reached\<close> below runs the events that lead to it).
\<close>

definition ready_session :: session where
  "ready_session =
     \<lparr> mainView = Blog, blogView = Admin, posts = [post_a], isAuthReady = True,
       userId = Some ''u1'', newPost = \<lparr> title = [], content = [] \<rparr>, editingPost = None,
       showDeleteModal = False, postToDelete = None, isMobileMenuOpen = False,
       db = Some Firestore, auth = Some FirebaseAuth, app_id_global = None, console = [],
       calls = [Subscribe ''artifacts/default-app-id/users/u1/blogPosts''],
       effect_cleanup = Some ''artifacts/default-app-id/users/u1/blogPosts'',
       listener = Some ''artifacts/default-app-id/users/u1/blogPosts'' \<rparr>"

definition hi_session :: session where
  "hi_session = ready_session\<lparr> newPost := \<lparr> title = ''Hi'', content = ''World'' \<rparr> \<rparr>"

definition empty_title_session :: session where
  "empty_title_session = ready_session\<lparr> newPost := \<lparr> title = [], content = ''World'' \<rparr> \<rparr>"

definition empty_content_post :: post where
  "empty_content_post = post_a\<lparr> content := [] \<rparr>"

definition empty_content_edit_session :: session where
  "empty_content_edit_session = ready_session\<lparr> editingPost := Some empty_content_post \<rparr>"

definition edited_post :: post where
  "edited_post = post_a\<lparr> title := ''Hello'', content := ''Again'' \<rparr>"

definition edit_session :: session where
  "edit_session = ready_session\<lparr> editingPost := Some edited_post \<rparr>"

definition stored_a :: "string \<rightharpoonup> field_value" where
  "stored_a =
     [''title'' \<mapsto> VString ''First'', ''content'' \<mapsto> VString ''One'',
      ''author'' \<mapsto> VString ''Murad Amin'', ''timestamp'' \<mapsto> VNumber 100]"

definition blank_session :: session where
  "blank_session = ready_session\<lparr> newPost := \<lparr> title = '' '', content = ''  '' \<rparr> \<rparr>"

definition blank_post :: post where
  "blank_post = post_a\<lparr> title := '' '', content := ''  '' \<rparr>"

definition blank_edit_session :: session where
  "blank_edit_session = ready_session\<lparr> editingPost := Some blank_post \<rparr>"

definition confirm_session :: session where
  "confirm_session = ready_session\<lparr> postToDelete := Some post_a, showDeleteModal := True \<rparr>"

text \<open>
  A session with an empty \<^verbatim>\<open>__app_id\<close> in which the anonymous sign-in has failed:
  the admin panel is shown, no user id is known, and a draft has been typed
  (\<open>no_app_id_session_reached\<close> below runs the events that lead to it).
\<close>

definition no_app_id_session :: session where
  "no_app_id_session =
     \<lparr> mainView = Blog, blogView = Admin, posts = [], isAuthReady = True,
       userId = None, newPost = \<lparr> title = ''Hi'', content = ''World'' \<rparr>,
       editingPost = None, showDeleteModal = False, postToDelete = None,
       isMobileMenuOpen = False, db = Some Firestore, auth = Some FirebaseAuth,
       app_id_global = Some [],
       console = [''Anonymous sign-in failed: network-request-failed''], calls = [],
       effect_cleanup = None, listener = None \<rparr>"

definition blank_no_app_id_session :: session where
  "blank_no_app_id_session =
     no_app_id_session\<lparr> newPost := \<lparr> title = '' '', content = ''  '' \<rparr> \<rparr>"

definition failed_auth_events :: "event list" where
  "failed_auth_events =
     [AuthStateChanged None (AnonFailed ''network-request-failed''), SetMainView Blog,
      SetBlogView Admin, ChangeTitle ''Hi'', ChangeContent ''World'',
      ClickCreate 1700000000000 Resolved]"

section \<open>Properties of the sort\<close>

lemma insert_by_compare_posts:
  "insert_by compare_posts x ys = insort_key (\<lambda>p. - timestamp_or_0 p) x ys"
  by (induction ys) (simp_all add: compare_posts_def)

lemma array_sort_compare_posts:
  "array_sort compare_posts xs = sort_key (\<lambda>p. - timestamp_or_0 p) xs"
  by (induction xs) (simp_all add: array_sort_def insert_by_compare_posts)

lemma sorted_wrt_neg_key:
  "sorted (map (\<lambda>p. - timestamp_or_0 p) xs) =
   sorted_wrt (\<lambda>a b. timestamp_or_0 b \<le> timestamp_or_0 a) xs"
  by (induction xs) auto

lemma fetchedPosts_mset: "mset (fetchedPosts docs) = mset (map post_of_doc docs)"
  by (simp add: fetchedPosts_def array_sort_compare_posts)

lemma fetchedPosts_descending:
  "sorted_wrt (\<lambda>a b. timestamp_or_0 b \<le> timestamp_or_0 a) (fetchedPosts docs)"
  unfolding fetchedPosts_def array_sort_compare_posts sorted_wrt_neg_key [symmetric]
  by (rule sorted_sort_key)

lemma sorted_wrt_strict:
  "sorted_wrt (\<lambda>a b. f b \<le> (f a :: int)) xs \<Longrightarrow> distinct (map f xs) \<Longrightarrow>
   sorted_wrt (\<lambda>a b. f b < f a) xs"
proof (induction xs)
  case Nil
  then show ?case by simp
next
  case (Cons x xs)
  have "f y < f x" if "y \<in> set xs" for y
  proof -
    from Cons.prems(1) that have le: "f y \<le> f x" by simp
    from Cons.prems(2) have "f x \<notin> f ` set xs" by simp
    with that have "f y \<noteq> f x" by (metis imageI)
    with le show ?thesis by simp
  qed
  with Cons show ?case by simp
qed

lemma fetchedPosts_distinct:
  "distinct (map timestamp_or_0 (fetchedPosts docs)) =
   distinct (map timestamp_or_0 (map post_of_doc docs))"
proof -
  have "mset (map timestamp_or_0 (fetchedPosts docs)) =
        mset (map timestamp_or_0 (map post_of_doc docs))"
    using fetchedPosts_mset [of docs] by (metis mset_map)
  then show ?thesis by (rule mset_eq_imp_distinct_iff)
qed

lemma fetchedPosts_stable:
  "filter (\<lambda>p. timestamp_or_0 p = k) (fetchedPosts docs) =
   filter (\<lambda>p. timestamp_or_0 p = k) (map post_of_doc docs)"
proof -
  have "filter (\<lambda>p. - timestamp_or_0 p = - k) (fetchedPosts docs) =
        filter (\<lambda>p. - timestamp_or_0 p = - k) (map post_of_doc docs)"
    unfolding fetchedPosts_def array_sort_compare_posts by (rule sort_key_stable)
  then show ?thesis by simp
qed

section \<open>The reference to the posts collection\<close>

lemma collection_Inr: "collection d path = Inr postsRef \<Longrightarrow> postsRef = path \<and> d \<noteq> None"
  by (auto simp: collection_def split: if_splits option.splits)

lemma split_path_plain: "CHR ''/'' \<notin> set seg \<Longrightarrow> split_path seg = [seg]"
  by (induction seg) auto

lemma split_path_append:
  "CHR ''/'' \<notin> set seg \<Longrightarrow> split_path (seg @ CHR ''/'' # rest) = seg # split_path rest"
  by (induction seg) auto

lemma double_slash_append:
  "CHR ''/'' \<notin> set seg \<Longrightarrow> seg \<noteq> [] \<Longrightarrow>
   double_slash (seg @ CHR ''/'' # rest) = double_slash (CHR ''/'' # rest)"
  by (induction seg rule: double_slash.induct) auto

lemma double_slash_slash:
  "CHR ''/'' \<notin> set seg \<Longrightarrow> seg \<noteq> [] \<Longrightarrow>
   double_slash (CHR ''/'' # seg @ rest) = double_slash (seg @ rest)"
  by (cases seg) auto

text \<open>
  The reference can be built whenever the handle is there and the app id and
  the user id, as the template writes them, are plain segments: so for the
  default app id and every user id Firebase gives, and also for the text
  \<^verbatim>\<open>null\<close> that line 101 writes after a failed sign-in.
\<close>

lemma collection_plain:
  assumes "db s = Some h" and "plain_segment (appId s)"
    and "plain_segment (template_userId (userId s))"
  shows "collection (db s) (postsCollectionPath s) = Inr (postsCollectionPath s)"
proof -
  define a where "a = appId s"
  define u where "u = template_userId (userId s)"
  from assms have a: "CHR ''/'' \<notin> set a" "a \<noteq> []" and u: "CHR ''/'' \<notin> set u" "u \<noteq> []"
    by (simp_all add: plain_segment_def a_def u_def)
  have s1: "split_path (''artifacts/'' @ a @ ''/users/'' @ u @ ''/blogPosts'') =
        [''artifacts'', a, ''users'', u, ''blogPosts'']"
    using split_path_append [OF a(1), of "''users/'' @ u @ ''/blogPosts''"]
      split_path_append [OF u(1), of "''blogPosts''"]
    by simp
  have d1: "\<not> double_slash (''artifacts/'' @ a @ ''/users/'' @ u @ ''/blogPosts'')"
  proof -
    have "double_slash (''artifacts/'' @ a @ ''/users/'' @ u @ ''/blogPosts'') =
          double_slash (CHR ''/'' # a @ CHR ''/'' # ''users/'' @ u @ ''/blogPosts'')"
      by simp
    also have "\<dots> = double_slash (a @ CHR ''/'' # ''users/'' @ u @ ''/blogPosts'')"
      using double_slash_slash [OF a] by simp
    also have "\<dots> = double_slash (CHR ''/'' # ''users/'' @ u @ ''/blogPosts'')"
      using double_slash_append [OF a] by simp
    also have "\<dots> = double_slash (CHR ''/'' # u @ ''/blogPosts'')"
      by simp
    also have "\<dots> = double_slash (u @ CHR ''/'' # ''blogPosts'')"
      using double_slash_slash [OF u] by simp
    also have "\<dots> = double_slash (CHR ''/'' # ''blogPosts'')"
      using double_slash_append [OF u] by simp
    also have "\<dots> = False" by simp
    finally show ?thesis by simp
  qed
  from a u s1 d1 assms(1) show ?thesis
    by (simp add: collection_def path_segments_def postsCollectionPath_def a_def u_def)
qed

section \<open>Reachable sessions\<close>

lemma ready_session_reached:
  "run [AuthStateChanged (Some ''u1'') (AnonFailed []), SetMainView Blog, SetBlogView Admin,
        SnapshotNext [doc_a]] (mount None ConfigOk) = ready_session"
  by (simp add: mount_def initialize_def subscription_effect_def initial_session_def
      rerender_def deps_def run_cleanup_def step_def onAuthStateChanged_handler_def
      truthy_def issue_def postsCollectionPath_def appId_def template_userId_def
      onSnapshot_next_def fetchedPosts_def array_sort_def post_of_doc_def ready_session_def
      post_a_def doc_a_def)

lemma no_app_id_session_reached:
  "run [AuthStateChanged None (AnonFailed ''network-request-failed''), SetMainView Blog,
        SetBlogView Admin, ChangeTitle ''Hi'', ChangeContent ''World'']
     (mount (Some []) ConfigOk) = no_app_id_session"
  by (simp add: mount_def initialize_def subscription_effect_def initial_session_def
      rerender_def deps_def run_cleanup_def step_def onAuthStateChanged_handler_def
      truthy_def console_error_def admin_visible_def no_app_id_session_def)

lemma handle_initialized: "initialized s \<Longrightarrow> enabled ev s \<Longrightarrow> initialized (handle ev s)"
  by (cases ev)
     (auto simp: initialized_def onAuthStateChanged_handler_def customToken_failed_def
       onSnapshot_next_def onSnapshot_error_def console_error_def createPost_def
       updatePost_def deletePost_def issue_def Let_def showDeleteConfirmation_def
       split: option.splits anon_result.splits reply.splits sum.splits)

lemma rerender_initialized: "initialized new \<Longrightarrow> initialized (rerender old new)"
  by (simp add: initialized_def rerender_def subscription_effect_def run_cleanup_def
      issue_def split: option.splits)

lemma mount_initialized: "initialized (mount app cfg)"
  by (cases cfg)
     (simp_all add: mount_def initialized_def rerender_def subscription_effect_def
       run_cleanup_def truthy_def initialize_def initial_session_def console_error_def
       deps_def)

lemma run_initialized: "initialized s \<Longrightarrow> initialized (run evs s)"
  by (induction evs arbitrary: s)
     (simp_all add: step_def handle_initialized rerender_initialized)

text \<open>
  Wherever the blog view is rendered (\<^verbatim>\<open>isAuthReady\<close>, line 544) the Firestore
  handle is there: the buttons that call \<^verbatim>\<open>createPost\<close>, \<^verbatim>\<open>updatePost\<close> and
  \<^verbatim>\<open>deletePost\<close> exist only in sessions with \<open>db s \<noteq> None\<close>.
\<close>

lemma ready_session_has_db:
  "isAuthReady (run evs (mount app cfg)) \<Longrightarrow> db (run evs (mount app cfg)) \<noteq> None"
  using run_initialized [OF mount_initialized, of evs app cfg]
  by (simp add: initialized_def)

lemma handle_unsubscribed:
  "unsubscribed s \<Longrightarrow> \<not> brings_identity ev \<Longrightarrow> unsubscribed (handle ev s)"
proof (cases ev)
  case (AuthStateChanged user anon)
  assume "unsubscribed s" "\<not> brings_identity ev"
  with AuthStateChanged show ?thesis
    by (cases user; cases anon)
       (simp_all add: unsubscribed_def onAuthStateChanged_handler_def console_error_def)
next
  case (ClickUpdate r)
  assume "unsubscribed s"
  with ClickUpdate show ?thesis
    by (simp add: unsubscribed_def updatePost_def console_error_def issue_def Let_def
        split: option.splits reply.splits)
qed (simp_all add: unsubscribed_def customToken_failed_def onSnapshot_next_def
      onSnapshot_error_def console_error_def createPost_def deletePost_def issue_def Let_def
      showDeleteConfirmation_def split: option.splits reply.splits sum.splits)

lemma rerender_unsubscribed: "unsubscribed new \<Longrightarrow> unsubscribed (rerender old new)"
  by (simp add: unsubscribed_def rerender_def subscription_effect_def run_cleanup_def
      truthy_def)

lemma step_unsubscribed:
  "unsubscribed s \<Longrightarrow> \<not> brings_identity ev \<Longrightarrow> unsubscribed (step ev s)"
  by (simp add: step_def rerender_unsubscribed handle_unsubscribed)

lemma mount_unsubscribed: "unsubscribed (mount app cfg)"
  by (cases cfg)
     (simp_all add: mount_def unsubscribed_def rerender_def subscription_effect_def
       run_cleanup_def truthy_def initialize_def initial_session_def console_error_def
       deps_def)

lemma run_unsubscribed:
  "unsubscribed s \<Longrightarrow> \<forall>ev\<in>set evs. \<not> brings_identity ev \<Longrightarrow> unsubscribed (run evs s)"
  by (induction evs arbitrary: s) (simp_all add: step_unsubscribed)

lemma effect_without_identity:
  "\<not> (isAuthReady s \<and> truthy (userId s)) \<Longrightarrow>
   calls (subscription_effect s) = calls s \<and> listener (subscription_effect s) = listener s"
  by (auto simp: subscription_effect_def)

lemma rerender_posts: "posts (rerender old new) = posts new"
  by (simp add: rerender_def subscription_effect_def run_cleanup_def issue_def
      split: option.splits)

lemma handle_posts: "\<not> is_emission ev \<Longrightarrow> posts (handle ev s) = posts s"
  by (cases ev)
     (simp_all add: onAuthStateChanged_handler_def customToken_failed_def onSnapshot_error_def
       console_error_def createPost_def updatePost_def deletePost_def issue_def Let_def
       showDeleteConfirmation_def
       split: option.splits anon_result.splits reply.splits sum.splits)

section \<open>The claims\<close>

text \<open>
  Claim C1. For every snapshot the store emits, the list the callback of lines
  77-83 stores in \<^verbatim>\<open>posts\<close> holds exactly the emitted posts, in descending order
  of timestamp, a missing timestamp counting as 0; when the timestamps (so
  read) are pairwise distinct the list is strictly descending.
\<close>

theorem snapshot_sorted_descending:
  "mset (posts (onSnapshot_next docs s)) = mset (map post_of_doc docs)
   \<and> sorted_wrt (\<lambda>a b. timestamp_or_0 b \<le> timestamp_or_0 a) (posts (onSnapshot_next docs s))
   \<and> (distinct (map timestamp_or_0 (map post_of_doc docs)) \<longrightarrow>
        sorted_wrt (\<lambda>a b. timestamp_or_0 b < timestamp_or_0 a)
          (posts (onSnapshot_next docs s)))"
proof -
  have p: "posts (onSnapshot_next docs s) = fetchedPosts docs"
    by (simp add: onSnapshot_next_def)
  have "sorted_wrt (\<lambda>a b. timestamp_or_0 b < timestamp_or_0 a) (fetchedPosts docs)"
    if "distinct (map timestamp_or_0 (map post_of_doc docs))"
    using that fetchedPosts_descending [of docs] fetchedPosts_distinct [of docs]
    by (intro sorted_wrt_strict) simp_all
  then show ?thesis
    unfolding p using fetchedPosts_mset fetchedPosts_descending by blast
qed

text \<open>The feed emits \<open>a\<close> (timestamp 100) and then \<open>b\<close> (200): the snapshot is \<open>[b, a]\<close>.\<close>

theorem snapshot_sorted_descending_witness:
  "distinct (map timestamp_or_0 (map post_of_doc [doc_a, doc_b]))
   \<and> sorted_wrt (\<lambda>a b. timestamp_or_0 b < timestamp_or_0 a)
        (posts (onSnapshot_next [doc_a, doc_b] (initial_session None)))
   \<and> map post_id (posts (onSnapshot_next [doc_a, doc_b] (initial_session None))) =
        [''b'', ''a'']"
proof -
  have d: "distinct (map timestamp_or_0 (map post_of_doc [doc_a, doc_b]))"
    by (simp add: timestamp_or_0_def post_of_doc_def doc_a_def doc_b_def)
  have i: "map post_id (posts (onSnapshot_next [doc_a, doc_b] (initial_session None))) =
        [''b'', ''a'']"
    by (simp add: onSnapshot_next_def fetchedPosts_def array_sort_def compare_posts_def
        timestamp_or_0_def post_of_doc_def doc_a_def doc_b_def)
  from d i snapshot_sorted_descending [of "[doc_a, doc_b]" "initial_session None"]
  show ?thesis by blast
qed

text \<open>
  Claim C2. With an empty title or an empty content, \<^verbatim>\<open>createPost\<close> and
  \<^verbatim>\<open>updatePost\<close> log the validation message and return: no call is made on the
  store, and the draft (\<^verbatim>\<open>newPost\<close>, \<^verbatim>\<open>editingPost\<close>) is as it was.
\<close>

theorem empty_draft_is_rejected:
  "(title (newPost s) = [] \<or> content (newPost s) = [] \<longrightarrow>
      createPost now r s = console_error ''Title and content cannot be empty.'' s
      \<and> calls (createPost now r s) = calls s
      \<and> newPost (createPost now r s) = newPost s
      \<and> console (createPost now r s) = console s @ [''Title and content cannot be empty.''])
   \<and> (editingPost s = Some d \<and> (title d = [] \<or> content d = []) \<longrightarrow>
      (\<exists>s'. updatePost postId r s = Inr s'
        \<and> s' = console_error ''Title and content cannot be empty.'' s
        \<and> calls s' = calls s
        \<and> editingPost s' = Some d
        \<and> console s' = console s @ [''Title and content cannot be empty.'']))"
  by (simp add: createPost_def updatePost_def console_error_def)

theorem empty_draft_is_rejected_witness:
  "title (newPost empty_title_session) = []
   \<and> calls (createPost 1700000000000 Resolved empty_title_session) =
       calls empty_title_session
   \<and> newPost (createPost 1700000000000 Resolved empty_title_session) =
       \<lparr> title = [], content = ''World'' \<rparr>
   \<and> editingPost empty_content_edit_session = Some empty_content_post
   \<and> content empty_content_post = []
   \<and> (\<exists>s'. updatePost ''a'' Resolved empty_content_edit_session = Inr s'
        \<and> calls s' = calls empty_content_edit_session
        \<and> editingPost s' = Some empty_content_post)"
proof -
  have t: "title (newPost empty_title_session) = []"
    and n: "newPost empty_title_session = \<lparr> title = [], content = ''World'' \<rparr>"
    by (simp_all add: empty_title_session_def)
  have e: "editingPost empty_content_edit_session = Some empty_content_post"
    and c: "content empty_content_post = []"
    by (simp_all add: empty_content_edit_session_def empty_content_post_def)
  from t n
    empty_draft_is_rejected
      [where s = empty_title_session and now = 1700000000000 and r = Resolved
         and d = empty_content_post and postId = "''a''"]
  have 1: "calls (createPost 1700000000000 Resolved empty_title_session) =
             calls empty_title_session
           \<and> newPost (createPost 1700000000000 Resolved empty_title_session) =
             \<lparr> title = [], content = ''World'' \<rparr>"
    by (simp add: console_error_def)
  from e c
    empty_draft_is_rejected
      [where s = empty_content_edit_session and d = empty_content_post
         and postId = "''a''" and r = Resolved and now = 1700000000000]
  have 2: "\<exists>s'. updatePost ''a'' Resolved empty_content_edit_session = Inr s'
        \<and> calls s' = calls empty_content_edit_session
        \<and> editingPost s' = Some empty_content_post"
    by blast
  from t e c 1 2 show ?thesis by blast
qed

text \<open>
  Claim C3 as it is written fails when the store rejects the delete: the two
  resets of lines 138-139 come after the \<^verbatim>\<open>await\<close> inside the \<^verbatim>\<open>try\<close>, so a
  rejected \<^verbatim>\<open>deleteDoc\<close> goes to the \<^verbatim>\<open>catch\<close> and the prompt stays open with its
  post.
\<close>

theorem failed_delete_keeps_prompt_open:
  "postToDelete confirm_session = Some post_a
   \<and> calls (deletePost (Rejected ''unavailable'') confirm_session) =
       calls confirm_session @ [DeleteDoc ''artifacts/default-app-id/users/u1/blogPosts/a'']
   \<and> \<not> (postToDelete (deletePost (Rejected ''unavailable'') confirm_session) = None
        \<and> showDeleteModal (deletePost (Rejected ''unavailable'') confirm_session) = False)"
  by (simp add: confirm_session_def ready_session_def deletePost_def issue_def
      console_error_def postsDocPath_def appId_def template_userId_def post_a_def)

text \<open>
  Claim C3, amended. A confirmed deletion (\<^verbatim>\<open>postToDelete\<close> set, Firestore handle
  present) issues \<^verbatim>\<open>deleteDoc\<close> for the post's document. When the call resolves,
  \<^verbatim>\<open>postToDelete\<close> is reset and the prompt is closed; when it is rejected, the
  error is logged and both are left as they were.
\<close>

theorem delete_clears_prompt_on_success:
  assumes "postToDelete s = Some p" and "db s = Some h"
  shows "calls (deletePost r s) = calls s @ [DeleteDoc (postsDocPath s (post_id p))]
         \<and> (r = Resolved \<longrightarrow>
               postToDelete (deletePost r s) = None \<and> showDeleteModal (deletePost r s) = False)
         \<and> (r = Rejected e \<longrightarrow>
               postToDelete (deletePost r s) = Some p
               \<and> showDeleteModal (deletePost r s) = showDeleteModal s
               \<and> console (deletePost r s) = console s @ [''Error deleting document: '' @ e])"
  using assms
  by (simp add: deletePost_def issue_def console_error_def Let_def split: reply.splits)

theorem delete_clears_prompt_on_success_witness:
  "postToDelete confirm_session = Some post_a \<and> db confirm_session = Some Firestore
   \<and> calls (deletePost Resolved confirm_session) =
       calls confirm_session @ [DeleteDoc (postsDocPath confirm_session (post_id post_a))]
   \<and> postToDelete (deletePost Resolved confirm_session) = None
   \<and> showDeleteModal (deletePost Resolved confirm_session) = False
   \<and> postToDelete (deletePost (Rejected ''unavailable'') confirm_session) = Some post_a
   \<and> showDeleteModal (deletePost (Rejected ''unavailable'') confirm_session) = True"
proof -
  have h1: "postToDelete confirm_session = Some post_a"
    and h2: "db confirm_session = Some Firestore"
    and h3: "showDeleteModal confirm_session = True"
    by (simp_all add: confirm_session_def ready_session_def)
  from delete_clears_prompt_on_success [OF h1 h2, of Resolved]
    delete_clears_prompt_on_success [OF h1 h2, of "Rejected ''unavailable''" "''unavailable''"]
    h1 h2 h3
  show ?thesis by simp
qed

text \<open>
  Claim C4. For a valid draft, \<^verbatim>\<open>updatePost\<close> makes one \<^verbatim>\<open>updateDoc\<close> call on the
  document of the given id, and the object it passes has the fields \<^verbatim>\<open>title\<close>
  and \<^verbatim>\<open>content\<close> and no other: applied to any stored document, the update
  leaves its \<^verbatim>\<open>timestamp\<close> and \<^verbatim>\<open>author\<close> as they were.
\<close>

theorem update_writes_only_title_and_content:
  assumes "editingPost s = Some d" and "title d \<noteq> []" and "content d \<noteq> []"
    and "db s = Some h"
  shows "\<exists>s'. updatePost postId r s = Inr s'
           \<and> calls s' = calls s @ [UpdateDoc (postsDocPath s postId)
                [(''title'', VString (title d)), (''content'', VString (content d))]]
           \<and> firestore_update
                [(''title'', VString (title d)), (''content'', VString (content d))] stored_doc
                ''timestamp'' = stored_doc ''timestamp''
           \<and> firestore_update
                [(''title'', VString (title d)), (''content'', VString (content d))] stored_doc
                ''author'' = stored_doc ''author''"
  using assms
  by (simp add: updatePost_def issue_def console_error_def firestore_update_def map_add_def
      Let_def split: reply.splits)

theorem update_writes_only_title_and_content_witness:
  "editingPost edit_session = Some edited_post
   \<and> title edited_post \<noteq> [] \<and> content edited_post \<noteq> [] \<and> db edit_session = Some Firestore
   \<and> (\<exists>s'. updatePost ''a'' Resolved edit_session = Inr s'
        \<and> calls s' = calls edit_session @
            [UpdateDoc ''artifacts/default-app-id/users/u1/blogPosts/a''
               [(''title'', VString ''Hello''), (''content'', VString ''Again'')]]
        \<and> firestore_update [(''title'', VString ''Hello''), (''content'', VString ''Again'')]
            stored_a ''timestamp'' = Some (VNumber 100)
        \<and> firestore_update [(''title'', VString ''Hello''), (''content'', VString ''Again'')]
            stored_a ''author'' = Some (VString ''Murad Amin''))"
proof -
  have e: "editingPost edit_session = Some edited_post"
    and h: "db edit_session = Some Firestore"
    by (simp_all add: edit_session_def ready_session_def)
  have t: "title edited_post = ''Hello''" and c: "content edited_post = ''Again''"
    by (simp_all add: edited_post_def)
  have t': "title edited_post \<noteq> []" and c': "content edited_post \<noteq> []"
    by (simp_all add: t c)
  have p: "postsDocPath edit_session ''a'' = ''artifacts/default-app-id/users/u1/blogPosts/a''"
    by (simp add: postsDocPath_def appId_def template_userId_def edit_session_def
        ready_session_def)
  have s: "stored_a ''timestamp'' = Some (VNumber 100)"
    "stored_a ''author'' = Some (VString ''Murad Amin'')"
    by (simp_all add: stored_a_def)
  from update_writes_only_title_and_content
    [OF e t' c' h, where postId = "''a''" and r = Resolved and stored_doc = stored_a]
  have "\<exists>s'. updatePost ''a'' Resolved edit_session = Inr s'
        \<and> calls s' = calls edit_session @
            [UpdateDoc ''artifacts/default-app-id/users/u1/blogPosts/a''
               [(''title'', VString ''Hello''), (''content'', VString ''Again'')]]
        \<and> firestore_update [(''title'', VString ''Hello''), (''content'', VString ''Again'')]
            stored_a ''timestamp'' = Some (VNumber 100)
        \<and> firestore_update [(''title'', VString ''Hello''), (''content'', VString ''Again'')]
            stored_a ''author'' = Some (VString ''Murad Amin'')"
    unfolding t c p s .
  with e t' c' h show ?thesis by blast
qed

text \<open>
  Claim C5 as it is written fails where \<^verbatim>\<open>collection\<close> throws: with an empty
  \<^verbatim>\<open>__app_id\<close> and a failed anonymous sign-in the admin panel is shown, the draft
  \<open>Hi\<close>/\<open>World\<close> passes the validation, the path
  \<^verbatim>\<open>artifacts//users/null/blogPosts\<close> is refused inside the \<^verbatim>\<open>try\<close>, and the
  \<^verbatim>\<open>catch\<close> logs: no \<^verbatim>\<open>addDoc\<close>, and the draft is kept.
\<close>

theorem create_with_refused_path_writes_nothing:
  "title (newPost no_app_id_session) = ''Hi''
   \<and> content (newPost no_app_id_session) = ''World''
   \<and> db no_app_id_session = Some Firestore
   \<and> postsCollectionPath no_app_id_session = ''artifacts//users/null/blogPosts''
   \<and> calls (createPost 1700000000000 Resolved no_app_id_session) = []
   \<and> newPost (createPost 1700000000000 Resolved no_app_id_session) =
       \<lparr> title = ''Hi'', content = ''World'' \<rparr>
   \<and> console (createPost 1700000000000 Resolved no_app_id_session) =
       [''Anonymous sign-in failed: network-request-failed'',
        ''Error adding document: FirebaseError: Invalid segment'']"
  by (simp add: no_app_id_session_def createPost_def collection_def console_error_def
      postsCollectionPath_def appId_def template_userId_def)

text \<open>
  Claim C5, amended. For a draft with non-empty title and content, in a session
  where the reference to the posts collection can be built, \<^verbatim>\<open>createPost\<close> makes
  one \<^verbatim>\<open>addDoc\<close> call on that collection with the draft's title and content, the
  author \<^verbatim>\<open>'Murad Amin'\<close> and the value of \<^verbatim>\<open>Date.now()\<close> as timestamp, and when
  the call resolves \<^verbatim>\<open>newPost\<close> is reset to the empty draft. Where the reference
  cannot be built, the error is logged, no call is made and the draft is kept.
\<close>

theorem create_writes_new_document:
  assumes "title (newPost s) \<noteq> []" and "content (newPost s) \<noteq> []"
  shows "(collection (db s) (postsCollectionPath s) = Inr postsRef \<longrightarrow>
            calls (createPost now r s) =
              calls s @ [AddDoc (postsCollectionPath s)
                [(''title'', VString (title (newPost s))),
                 (''content'', VString (content (newPost s))),
                 (''author'', VString ''Murad Amin''),
                 (''timestamp'', VNumber now)]]
            \<and> newPost (createPost now Resolved s) = \<lparr> title = [], content = [] \<rparr>)
         \<and> (collection (db s) (postsCollectionPath s) = Inl e \<longrightarrow>
            calls (createPost now r s) = calls s
            \<and> newPost (createPost now r s) = newPost s
            \<and> console (createPost now r s) = console s @ [''Error adding document: '' @ e])"
proof -
  have "postsRef = postsCollectionPath s"
    if "collection (db s) (postsCollectionPath s) = Inr postsRef"
    using that collection_Inr by blast
  with assms show ?thesis
    by (auto simp: createPost_def issue_def console_error_def Let_def split: reply.splits)
qed

theorem create_writes_new_document_witness:
  "title (newPost hi_session) = ''Hi'' \<and> content (newPost hi_session) = ''World''
   \<and> collection (db hi_session) (postsCollectionPath hi_session) =
       Inr ''artifacts/default-app-id/users/u1/blogPosts''
   \<and> calls (createPost 1700000000000 Resolved hi_session) =
       [Subscribe ''artifacts/default-app-id/users/u1/blogPosts'',
        AddDoc ''artifacts/default-app-id/users/u1/blogPosts''
          [(''title'', VString ''Hi''), (''content'', VString ''World''),
           (''author'', VString ''Murad Amin''), (''timestamp'', VNumber 1700000000000)]]
   \<and> newPost (createPost 1700000000000 Resolved hi_session) = \<lparr> title = [], content = [] \<rparr>
   \<and> collection (db no_app_id_session) (postsCollectionPath no_app_id_session) =
       Inl ''FirebaseError: Invalid segment''
   \<and> calls (createPost 1700000000000 Resolved no_app_id_session) = []
   \<and> newPost (createPost 1700000000000 Resolved no_app_id_session) =
       \<lparr> title = ''Hi'', content = ''World'' \<rparr>"
proof -
  have t: "title (newPost hi_session) = ''Hi''" and c: "content (newPost hi_session) = ''World''"
    and k: "calls hi_session = [Subscribe ''artifacts/default-app-id/users/u1/blogPosts'']"
    and p: "postsCollectionPath hi_session = ''artifacts/default-app-id/users/u1/blogPosts''"
    by (simp_all add: hi_session_def ready_session_def postsCollectionPath_def appId_def
        template_userId_def)
  have v: "collection (db hi_session) (postsCollectionPath hi_session) =
       Inr ''artifacts/default-app-id/users/u1/blogPosts''"
    unfolding p
    by (simp add: hi_session_def ready_session_def collection_def path_segments_def)
  have t': "title (newPost hi_session) \<noteq> []" and c': "content (newPost hi_session) \<noteq> []"
    by (simp_all add: t c)
  from v create_writes_new_document
    [OF t' c', where now = 1700000000000 and r = Resolved and e = "[]"
       and postsRef = "''artifacts/default-app-id/users/u1/blogPosts''"]
  have 1: "calls (createPost 1700000000000 Resolved hi_session) =
       [Subscribe ''artifacts/default-app-id/users/u1/blogPosts'',
        AddDoc ''artifacts/default-app-id/users/u1/blogPosts''
          [(''title'', VString ''Hi''), (''content'', VString ''World''),
           (''author'', VString ''Murad Amin''), (''timestamp'', VNumber 1700000000000)]]
     \<and> newPost (createPost 1700000000000 Resolved hi_session) = \<lparr> title = [], content = [] \<rparr>"
    unfolding t c k p by simp
  have n: "newPost no_app_id_session = \<lparr> title = ''Hi'', content = ''World'' \<rparr>"
    and k': "calls no_app_id_session = []"
    and p': "postsCollectionPath no_app_id_session = ''artifacts//users/null/blogPosts''"
    by (simp_all add: no_app_id_session_def postsCollectionPath_def appId_def
        template_userId_def)
  have v': "collection (db no_app_id_session) (postsCollectionPath no_app_id_session) =
       Inl ''FirebaseError: Invalid segment''"
    unfolding p' by (simp add: no_app_id_session_def collection_def)
  have t'': "title (newPost no_app_id_session) \<noteq> []"
    and c'': "content (newPost no_app_id_session) \<noteq> []"
    by (simp_all add: n)
  from v' create_writes_new_document
    [OF t'' c'', where now = 1700000000000 and r = Resolved
       and e = "''FirebaseError: Invalid segment''" and postsRef = "[]"]
  have 2: "calls (createPost 1700000000000 Resolved no_app_id_session) = []
     \<and> newPost (createPost 1700000000000 Resolved no_app_id_session) =
       \<lparr> title = ''Hi'', content = ''World'' \<rparr>"
    unfolding n k' by simp
  from t c v 1 v' 2 show ?thesis by blast
qed

text \<open>
  Claim C6. Posts whose timestamps are equal, a missing timestamp and the
  timestamp 0 counted alike, stand in the snapshot in the order in which the
  store emitted them: for every value \<open>k\<close>, the posts with timestamp \<open>k\<close> form
  the same list before and after the sort.
\<close>

theorem snapshot_ties_keep_emission_order:
  "filter (\<lambda>p. timestamp_or_0 p = k) (posts (onSnapshot_next docs s)) =
   filter (\<lambda>p. timestamp_or_0 p = k) (map post_of_doc docs)"
  by (simp add: onSnapshot_next_def fetchedPosts_stable)

text \<open>
  Emitted \<open>c\<close> (no timestamp), \<open>a\<close> (100), \<open>d\<close> (0), \<open>b\<close> (200), \<open>e\<close> (200):
  \<open>c\<close> stays before \<open>d\<close> and \<open>b\<close> before \<open>e\<close>.
\<close>

theorem snapshot_ties_keep_emission_order_witness:
  "map post_id (filter (\<lambda>p. timestamp_or_0 p = 0)
      (posts (onSnapshot_next [doc_c, doc_a, doc_d, doc_b, doc_e] (initial_session None))))
     = [''c'', ''d'']
   \<and> map post_id (filter (\<lambda>p. timestamp_or_0 p = 200)
      (posts (onSnapshot_next [doc_c, doc_a, doc_d, doc_b, doc_e] (initial_session None))))
     = [''b'', ''e'']"
  using snapshot_ties_keep_emission_order
    [of 0 "[doc_c, doc_a, doc_d, doc_b, doc_e]" "initial_session None"]
    snapshot_ties_keep_emission_order
    [of 200 "[doc_c, doc_a, doc_d, doc_b, doc_e]" "initial_session None"]
  by (simp add: timestamp_or_0_def post_of_doc_def doc_a_def doc_b_def doc_c_def doc_d_def
      doc_e_def)

text \<open>
  Claim C7. \<^verbatim>\<open>createPost\<close> leaves \<^verbatim>\<open>posts\<close> as it was, whatever the store
  answers; and no event of a session other than an emission of the store
  changes \<^verbatim>\<open>posts\<close>.
\<close>

theorem create_does_not_touch_posts:
  "posts (createPost now r s) = posts s
   \<and> (\<not> is_emission ev \<longrightarrow> posts (step ev s) = posts s)"
proof -
  have "posts (createPost now r s) = posts s"
    by (simp add: createPost_def issue_def console_error_def Let_def
        split: sum.splits reply.splits)
  moreover have "posts (step ev s) = posts s" if "\<not> is_emission ev"
    using that by (simp add: step_def rerender_posts handle_posts)
  ultimately show ?thesis by simp
qed

theorem create_does_not_touch_posts_witness:
  "\<not> is_emission (ClickCreate 1700000000000 Resolved)
   \<and> enabled (ClickCreate 1700000000000 Resolved) hi_session
   \<and> posts (step (ClickCreate 1700000000000 Resolved) hi_session) = [post_a]
   \<and> posts (createPost 1700000000000 Resolved hi_session) = [post_a]"
proof -
  have p: "posts hi_session = [post_a]"
    and e: "enabled (ClickCreate 1700000000000 Resolved) hi_session"
    by (simp_all add: hi_session_def ready_session_def admin_visible_def)
  have n: "\<not> is_emission (ClickCreate 1700000000000 Resolved)" by simp
  from create_does_not_touch_posts
    [of 1700000000000 Resolved hi_session "ClickCreate 1700000000000 Resolved"] n p e
  show ?thesis by simp
qed

text \<open>
  Claim C8. When the store reports an error to an open listener, the error is
  logged with \<^verbatim>\<open>console.error\<close>, \<^verbatim>\<open>posts\<close> keeps the last snapshot, the component
  makes no call on the store (it does not subscribe again), and the listener
  is closed: a later emission does not reach the session.
\<close>

theorem subscription_error_keeps_snapshot:
  assumes "listener s = Some p"
  shows "posts (step (SnapshotError e) s) = posts s
         \<and> console (step (SnapshotError e) s) =
             console s @ [''Failed to fetch blog posts: '' @ e]
         \<and> calls (step (SnapshotError e) s) = calls s
         \<and> listener (step (SnapshotError e) s) = None
         \<and> step (SnapshotNext docs) (step (SnapshotError e) s) = step (SnapshotError e) s"
  using assms
  by (simp add: step_def rerender_def deps_def onSnapshot_error_def console_error_def)

theorem subscription_error_keeps_snapshot_witness:
  "listener ready_session = Some ''artifacts/default-app-id/users/u1/blogPosts''
   \<and> posts (step (SnapshotError ''unavailable'') ready_session) = [post_a]
   \<and> console (step (SnapshotError ''unavailable'') ready_session) =
       [''Failed to fetch blog posts: unavailable'']
   \<and> listener (step (SnapshotError ''unavailable'') ready_session) = None"
proof -
  have l: "listener ready_session = Some ''artifacts/default-app-id/users/u1/blogPosts''"
    and p: "posts ready_session = [post_a]" and c: "console ready_session = []"
    by (simp_all add: ready_session_def)
  from subscription_error_keeps_snapshot [OF l, of "''unavailable''"] l p c
  show ?thesis by simp
qed

text \<open>
  Claim C9. In a state where \<^verbatim>\<open>isAuthReady\<close> is false or \<^verbatim>\<open>userId\<close> is not a
  user id, the subscription effect makes no call and opens no listener; and a
  session in which no event brings a user id never calls \<^verbatim>\<open>onSnapshot\<close> and
  has no listener open at its end, whatever the events are.
\<close>

theorem no_subscription_without_identity:
  "(\<not> (isAuthReady s \<and> truthy (userId s)) \<longrightarrow>
      calls (subscription_effect s) = calls s
      \<and> listener (subscription_effect s) = listener s)
   \<and> ((\<forall>ev\<in>set evs. \<not> brings_identity ev) \<longrightarrow>
      list_all (\<lambda>c. \<not> is_subscribe c) (calls (run evs (mount app cfg)))
      \<and> listener (run evs (mount app cfg)) = None)"
proof -
  have "unsubscribed (run evs (mount app cfg))" if "\<forall>ev\<in>set evs. \<not> brings_identity ev"
    using that mount_unsubscribed run_unsubscribed by blast
  then show ?thesis
    using effect_without_identity [of s] by (simp add: unsubscribed_def)
qed

text \<open>
  The anonymous sign-in fails; the user opens the admin panel and creates a
  post: no subscription is opened.
\<close>

theorem no_subscription_without_identity_witness:
  "isAuthReady (mount None ConfigOk) = False
   \<and> calls (subscription_effect (mount None ConfigOk)) = calls (mount None ConfigOk)
   \<and> map brings_identity failed_auth_events = [False, False, False, False, False, False]
   \<and> list_all (\<lambda>c. \<not> is_subscribe c) (calls (run failed_auth_events (mount None ConfigOk)))
   \<and> listener (run failed_auth_events (mount None ConfigOk)) = None"
proof -
  have a: "isAuthReady (mount None ConfigOk) = False"
    by (simp add: mount_def initialize_def subscription_effect_def initial_session_def
        rerender_def deps_def run_cleanup_def truthy_def)
  have m: "map brings_identity failed_auth_events = [False, False, False, False, False, False]"
    by (simp add: failed_auth_events_def)
  have b: "\<forall>ev\<in>set failed_auth_events. \<not> brings_identity ev"
    by (simp add: failed_auth_events_def)
  from a b
    no_subscription_without_identity
      [of "mount None ConfigOk" failed_auth_events None ConfigOk]
  have "calls (subscription_effect (mount None ConfigOk)) = calls (mount None ConfigOk)
    \<and> list_all (\<lambda>c. \<not> is_subscribe c) (calls (run failed_auth_events (mount None ConfigOk)))
    \<and> listener (run failed_auth_events (mount None ConfigOk)) = None"
    by blast
  with a m show ?thesis by blast
qed

text \<open>
  Claim C10 as it is written fails in the same session with a draft of blanks:
  the draft passes the validation (the message of line 95 is not logged), but
  \<^verbatim>\<open>collection\<close> refuses the path and no write is issued.
\<close>

theorem blank_draft_with_refused_path_writes_nothing:
  "title (newPost blank_no_app_id_session) = '' ''
   \<and> content (newPost blank_no_app_id_session) = ''  ''
   \<and> db blank_no_app_id_session = Some Firestore
   \<and> calls (createPost 1700000000000 Resolved blank_no_app_id_session) = []
   \<and> console (createPost 1700000000000 Resolved blank_no_app_id_session) =
       [''Anonymous sign-in failed: network-request-failed'',
        ''Error adding document: FirebaseError: Invalid segment'']"
  by (simp add: blank_no_app_id_session_def no_app_id_session_def createPost_def
      collection_def console_error_def postsCollectionPath_def appId_def template_userId_def)

text \<open>
  Claim C10, amended. The validation of \<^verbatim>\<open>createPost\<close> and \<^verbatim>\<open>updatePost\<close> tests
  only that title and content are non-empty strings: the validation message is
  logged exactly when one of them is empty, so a title or content of blanks
  only passes. A draft that passes is written as it stands: by \<^verbatim>\<open>createPost\<close>
  where the reference to the posts collection can be built, by \<^verbatim>\<open>updatePost\<close>
  where the Firestore handle is present; there a store call is made exactly
  when both are non-empty.
\<close>

theorem nonempty_draft_passes_validation:
  "((console (createPost now r s) = console s @ [''Title and content cannot be empty.'']) =
      (title (newPost s) = [] \<or> content (newPost s) = []))
   \<and> (collection (db s) (postsCollectionPath s) = Inr postsRef \<longrightarrow>
        ((calls (createPost now r s) = calls s) =
           (title (newPost s) = [] \<or> content (newPost s) = []))
        \<and> (title (newPost s) \<noteq> [] \<and> content (newPost s) \<noteq> [] \<longrightarrow>
             (\<exists>rest. calls (createPost now r s) =
                calls s @ [AddDoc (postsCollectionPath s)
                  ((''title'', VString (title (newPost s))) #
                   (''content'', VString (content (newPost s))) # rest)])))
   \<and> (editingPost s = Some d \<longrightarrow>
        (\<exists>s'. updatePost postId r s = Inr s'
           \<and> ((console s' = console s @ [''Title and content cannot be empty.'']) =
                (title d = [] \<or> content d = []))
           \<and> (db s = Some h \<longrightarrow>
                ((calls s' = calls s) = (title d = [] \<or> content d = []))
                \<and> (title d \<noteq> [] \<and> content d \<noteq> [] \<longrightarrow>
                     calls s' = calls s @ [UpdateDoc (postsDocPath s postId)
                       [(''title'', VString (title d)),
                        (''content'', VString (content d))]]))))"
proof -
  have ref: "postsRef = postsCollectionPath s"
    if "collection (db s) (postsCollectionPath s) = Inr postsRef"
    using that collection_Inr by blast
  have 1: "(console (createPost now r s) =
             console s @ [''Title and content cannot be empty.'']) =
           (title (newPost s) = [] \<or> content (newPost s) = [])"
    by (simp add: createPost_def issue_def console_error_def Let_def
        split: sum.splits reply.splits)
  have 2: "((calls (createPost now r s) = calls s) =
             (title (newPost s) = [] \<or> content (newPost s) = []))
        \<and> (title (newPost s) \<noteq> [] \<and> content (newPost s) \<noteq> [] \<longrightarrow>
             (\<exists>rest. calls (createPost now r s) =
                calls s @ [AddDoc (postsCollectionPath s)
                  ((''title'', VString (title (newPost s))) #
                   (''content'', VString (content (newPost s))) # rest)]))"
    if "collection (db s) (postsCollectionPath s) = Inr postsRef"
    using that ref
    by (simp add: createPost_def issue_def console_error_def Let_def split: reply.splits)
  have 3: "\<exists>s'. updatePost postId r s = Inr s'
           \<and> ((console s' = console s @ [''Title and content cannot be empty.'']) =
                (title d = [] \<or> content d = []))
           \<and> (db s = Some h \<longrightarrow>
                ((calls s' = calls s) = (title d = [] \<or> content d = []))
                \<and> (title d \<noteq> [] \<and> content d \<noteq> [] \<longrightarrow>
                     calls s' = calls s @ [UpdateDoc (postsDocPath s postId)
                       [(''title'', VString (title d)),
                        (''content'', VString (content d))]]))"
    if "editingPost s = Some d"
    using that
    by (simp add: updatePost_def issue_def console_error_def Let_def no_firestore_def
        split: option.splits reply.splits)
  from 1 2 3 show ?thesis by blast
qed

theorem nonempty_draft_passes_validation_witness:
  "title (newPost blank_session) = '' '' \<and> content (newPost blank_session) = ''  ''
   \<and> collection (db blank_session) (postsCollectionPath blank_session) =
       Inr ''artifacts/default-app-id/users/u1/blogPosts''
   \<and> (\<exists>rest. calls (createPost 1700000000000 Resolved blank_session) =
        calls blank_session @ [AddDoc ''artifacts/default-app-id/users/u1/blogPosts''
          ((''title'', VString '' '') # (''content'', VString ''  '') # rest)])
   \<and> db blank_edit_session = Some Firestore
   \<and> editingPost blank_edit_session = Some blank_post
   \<and> title blank_post = '' '' \<and> content blank_post = ''  ''
   \<and> (\<exists>s'. updatePost ''a'' Resolved blank_edit_session = Inr s'
        \<and> calls s' = calls blank_edit_session @
            [UpdateDoc ''artifacts/default-app-id/users/u1/blogPosts/a''
               [(''title'', VString '' ''), (''content'', VString ''  '')]])"
proof -
  have t: "title (newPost blank_session) = '' ''" "content (newPost blank_session) = ''  ''"
    and p: "postsCollectionPath blank_session = ''artifacts/default-app-id/users/u1/blogPosts''"
    by (simp_all add: blank_session_def ready_session_def postsCollectionPath_def appId_def
        template_userId_def)
  have v: "collection (db blank_session) (postsCollectionPath blank_session) =
       Inr ''artifacts/default-app-id/users/u1/blogPosts''"
    unfolding p
    by (simp add: blank_session_def ready_session_def collection_def path_segments_def)
  have h': "db blank_edit_session = Some Firestore"
    and e: "editingPost blank_edit_session = Some blank_post"
    and t': "title blank_post = '' ''" "content blank_post = ''  ''"
    and p': "postsDocPath blank_edit_session ''a'' =
             ''artifacts/default-app-id/users/u1/blogPosts/a''"
    by (simp_all add: blank_edit_session_def blank_post_def ready_session_def postsDocPath_def
        appId_def template_userId_def)
  from v nonempty_draft_passes_validation
    [where s = blank_session and now = 1700000000000 and r = Resolved and d = blank_post
       and postId = "''a''" and h = Firestore
       and postsRef = "''artifacts/default-app-id/users/u1/blogPosts''"]
  have 1: "\<exists>rest. calls (createPost 1700000000000 Resolved blank_session) =
        calls blank_session @ [AddDoc ''artifacts/default-app-id/users/u1/blogPosts''
          ((''title'', VString '' '') # (''content'', VString ''  '') # rest)]"
    unfolding t p by simp
  from e h' nonempty_draft_passes_validation
    [where s = blank_edit_session and d = blank_post and postId = "''a''" and r = Resolved
       and now = 1700000000000 and h = Firestore and postsRef = "[]"]
  have 2: "\<exists>s'. updatePost ''a'' Resolved blank_edit_session = Inr s'
        \<and> calls s' = calls blank_edit_session @
            [UpdateDoc ''artifacts/default-app-id/users/u1/blogPosts/a''
               [(''title'', VString '' ''), (''content'', VString ''  '')]]"
    unfolding t' p' by auto
  from t v 1 h' e t' 2 show ?thesis by blast
qed

end
